theory Spec2Isabelle
  imports Main "HOL-Library.AList"
begin

section \<open>Positions, nodes and the position provider\<close>

text \<open>
  The position provider (\<open>Order\<close>, \<open>OrderNode\<close>, \<open>Position\<close>) is imported by the
  source but is not part of it; it is taken as a parameter. An \<open>OrderNode\<close> object
  carries its \<open>id\<close>, a reference to its \<open>parent\<close> (\<open>null\<close> at the root) and its
  \<open>nextValueIndex\<close>; the loops \<open>current = current.parent\<close> of the source are then
  structural recursion. The children of a node (\<open>childrenLength\<close>, \<open>getChild(i)\<close>)
  are given by the \<open>Order\<close> as a list in child order. The ids of a provider are
  unique, so two node objects are the same object exactly when they are equal as values.
\<close>

datatype OrderNode =
  OrderNode (node_id: string) (parent: "OrderNode option") (nextValueIndex: nat)

record Position =
  nodeID :: string
  valueIndex :: nat

text \<open>
  Every \<open>throw new Error(...)\<close> of the source is a value of this type, named as the
  error surface of the specification names them. \<open>TypeError\<close> is JavaScript's own error
  for a field read on \<open>undefined\<close>; \<open>ContractViolation\<close> marks a call of the sparse
  store outside the contract the specification gives it: what happens then is decided by
  the store's code, which is not part of the source, and is not modelled.
\<close>

datatype error =
  InvalidPosition
  | InvalidInsertion
  | MissingNode
  | IndexOutOfBounds
  | InvalidCount
  | InternalInvariantViolation
  | TypeError
  | ContractViolation

record Order =
  rootNode :: OrderNode
  MIN_POSITION :: Position
  MAX_POSITION :: Position
  getNode :: "string \<Rightarrow> OrderNode option"
  getNodeFor :: "Position \<Rightarrow> error + OrderNode"
  children :: "OrderNode \<Rightarrow> OrderNode list"

section \<open>The sparse item store\<close>

text \<open>
  Modelled from the spec: the sparse item store (\<open>SparseItemsManager\<close>,
  \<open>./sparse_items\<close>) is imported by \<open>ItemList\<close> but its code is missing. The
  specification (4.1) describes it as a sequence of slots, some present with a value and
  some absent, stored run-length encoded. The model keeps the sequence of slots itself,
  \<open>None\<close> for an absent slot; a trimmed sequence has no trailing \<open>None\<close>. An item of the
  value-carrying item manager is the list of its values, and its length the list's length.
\<close>

type_synonym 'v SparseItems = "'v option list"

text \<open>Modelled from the spec: \<open>new(n)\<close>, an all-absent sequence of length \<open>n\<close>
  (\<open>new()\<close> is \<open>new(0)\<close>).\<close>

definition arrayMan_new :: "nat \<Rightarrow> 'v SparseItems" where
  "arrayMan_new n = replicate n None"

text \<open>Modelled from the spec: \<open>trim(seq)\<close> drops a trailing absent run.\<close>

fun arrayMan_trim :: "'v SparseItems \<Rightarrow> 'v SparseItems" where
  "arrayMan_trim [] = []"
| "arrayMan_trim (x # xs) =
     (let t = arrayMan_trim xs in if t = [] \<and> x = None then [] else x # t)"

text \<open>Modelled from the spec: \<open>size(seq)\<close>, the total present count.\<close>

definition arrayMan_size :: "'v SparseItems \<Rightarrow> nat" where
  "arrayMan_size arr = length (filter (\<lambda>x. x \<noteq> None) arr)"

text \<open>Modelled from the spec: \<open>isEmpty(seq)\<close>, the sequence has no run.\<close>

definition arrayMan_isEmpty :: "'v SparseItems \<Rightarrow> bool" where
  "arrayMan_isEmpty arr = (arr = [])"

text \<open>Modelled from the spec: \<open>getInfo(seq, i)\<close> is \<open>(value?, present, presentBefore)\<close>;
  the value is defined iff the slot is present, and \<open>presentBefore\<close> counts the present
  slots in \<open>[0, i)\<close>.\<close>

definition arrayMan_getInfo :: "'v SparseItems \<Rightarrow> nat \<Rightarrow> 'v option \<times> bool \<times> nat" where
  "arrayMan_getInfo arr i =
     (let v = (if i < length arr then arr ! i else None)
      in (v, v \<noteq> None, arrayMan_size (take i arr)))"

text \<open>Modelled from the spec: \<open>set(seq, i, item)\<close> writes \<open>length(item)\<close> present slots
  starting at \<open>i\<close>, overwriting whatever was there; the second component is the
  sub-sequence previously occupying \<open>[i, i + length(item))\<close>. The result is trimmed.\<close>

definition arrayMan_set ::
  "'v SparseItems \<Rightarrow> nat \<Rightarrow> 'v list \<Rightarrow> 'v SparseItems \<times> 'v SparseItems" where
  "arrayMan_set arr i item =
     (let n = length item;
          padded = arr @ replicate (i + n - length arr) None
      in (arrayMan_trim (take i padded @ map Some item @ drop (i + n) padded),
          take n (drop i padded)))"

text \<open>Modelled from the spec: \<open>delete(seq, i, n)\<close> has the shape of \<open>set\<close> but writes
  \<open>n\<close> absent slots. The count is the number the caller hands over, unchecked; the
  specification gives the store a contract for a number of slots only, and for a negative
  \<open>n\<close> the model answers \<open>None\<close>.\<close>

definition arrayMan_delete ::
  "'v SparseItems \<Rightarrow> nat \<Rightarrow> int \<Rightarrow> ('v SparseItems \<times> 'v SparseItems) option" where
  "arrayMan_delete arr i n =
     (if n < 0 then None
      else
        (let k = nat n;
             padded = arr @ replicate (i + k - length arr) None
         in Some (arrayMan_trim (take i padded @ replicate k None @ drop (i + k) padded),
                  take k (drop i padded))))"

text \<open>Modelled from the spec: \<open>new(n)\<close> for a number \<open>n\<close> the caller has not checked, as
  \<open>delete\<close> returns it for a node without a record. For \<open>n \<ge> 0\<close> it is the all-absent
  sequence of \<open>n\<close> slots; for a negative \<open>n\<close> the run of \<open>n\<close> absent slots is no sequence
  of slots, and is kept as the run it is.\<close>

datatype 'v Replaced = Replaced "'v SparseItems" | AbsentRun int

definition arrayMan_new_number :: "int \<Rightarrow> 'v Replaced" where
  "arrayMan_new_number n = (if n < 0 then AbsentRun n else Replaced (arrayMan_new (nat n)))"

text \<open>Modelled from the spec: \<open>findPresentIndex(seq, fromSlot, k)\<close> is the slot of the
  \<open>k\<close>-th present value at or after \<open>fromSlot\<close> (zero-based). The caller guarantees that
  it exists; where it does not, the model answers \<open>None\<close>.\<close>

fun findPresentFrom :: "'v SparseItems \<Rightarrow> nat \<Rightarrow> nat \<Rightarrow> nat option" where
  "findPresentFrom [] slot k = None"
| "findPresentFrom (x # xs) slot k =
     (case x of
        None \<Rightarrow> findPresentFrom xs (Suc slot) k
      | Some v \<Rightarrow> if k = 0 then Some slot else findPresentFrom xs (Suc slot) (k - 1))"

definition arrayMan_findPresentIndex :: "'v SparseItems \<Rightarrow> nat \<Rightarrow> nat \<Rightarrow> nat option" where
  "arrayMan_findPresentIndex arr fromSlot k = findPresentFrom (drop fromSlot arr) fromSlot k"

text \<open>Modelled from the spec: a slicer is a single-pass cursor over the sequence;
  \<open>nextSlice(endSlot)\<close> yields the present slots strictly before \<open>endSlot\<close> (to the end of
  the sequence for \<open>null\<close>), resuming where the last call stopped. It returns the pairs
  \<open>(slot, value)\<close> and the slot the next call resumes from.\<close>

fun presentSlots :: "'v SparseItems \<Rightarrow> nat \<Rightarrow> (nat \<times> 'v) list" where
  "presentSlots [] slot = []"
| "presentSlots (x # xs) slot =
     (case x of
        None \<Rightarrow> presentSlots xs (Suc slot)
      | Some v \<Rightarrow> (slot, v) # presentSlots xs (Suc slot))"

definition nextSlice ::
  "'v SparseItems \<Rightarrow> nat \<Rightarrow> nat option \<Rightarrow> (nat \<times> 'v) list \<times> nat" where
  "nextSlice arr cursor endSlot =
     (let stop = (case endSlot of None \<Rightarrow> max cursor (length arr) | Some e \<Rightarrow> max cursor e)
      in (presentSlots (take (stop - cursor) (drop cursor arr)) cursor, stop))"

section \<open>The item list\<close>

text \<open>
  \<open>NodeData\<close> and the fields of \<open>ItemList\<close> (part_000, lines 9--45 and 274--275). The
  \<open>Map\<close> from nodes to their data is an association list in insertion order, which is
  the order a JavaScript \<open>Map\<close> iterates in: \<open>AList.update\<close> overwrites a key in place
  or appends it. The records are only ever reached through the map, so a field
  assignment on a record obtained from the map is an update of the map at its key.
\<close>

record 'v NodeData =
  total :: int
  parentValuesBefore :: int
  values' :: "'v SparseItems"

record 'v ItemList =
  state :: "(OrderNode \<times> 'v NodeData) list"
  cachedIndexNode :: "OrderNode option"
  cachedIndex :: int

definition new_ItemList :: "'v ItemList" where
  "new_ItemList = \<lparr>state = [], cachedIndexNode = None, cachedIndex = - 1\<rparr>"

text \<open>\<open>getOrCreateData\<close> (part_000, lines 108--125): the list after the call, and the
  record of \<open>node\<close> in it.\<close>

definition getOrCreateData :: "'v ItemList \<Rightarrow> OrderNode \<Rightarrow> 'v ItemList \<times> 'v NodeData" where
  "getOrCreateData s node =
     (case map_of (state s) node of
        Some data \<Rightarrow> (s, data)
      | None \<Rightarrow>
          (let pvb =
                 (case parent node of
                    None \<Rightarrow> 0
                  | Some p \<Rightarrow>
                      (case map_of (state s) p of
                         None \<Rightarrow> 0
                       | Some parentData \<Rightarrow>
                           int (snd (snd (arrayMan_getInfo (values' parentData)
                                            (nextValueIndex node))))));
               data = \<lparr>total = 0, parentValuesBefore = pvb, values' = arrayMan_new 0\<rparr>
           in (s\<lparr>state := AList.update node data (state s)\<rparr>, data)))"

text \<open>The body of the loop of \<open>onUpdate\<close> over \<open>current = node, node.parent, ...\<close>
  (part_000, lines 143--145). It fetches the record of \<open>node\<close>, not of \<open>current\<close>, adds
  \<open>delta\<close> to it, and deletes the entry of \<open>current\<close> when that total is 0.\<close>

definition onUpdate_body :: "OrderNode \<Rightarrow> int \<Rightarrow> OrderNode \<Rightarrow> 'v ItemList \<Rightarrow> 'v ItemList" where
  "onUpdate_body node delta current s =
     (let (s1, data) = getOrCreateData s node;
          data1 = data\<lparr>total := total data + delta\<rparr>;
          s2 = s1\<lparr>state := AList.update node data1 (state s1)\<rparr>
      in if total data1 = 0 then s2\<lparr>state := AList.delete current (state s2)\<rparr> else s2)"

text \<open>The loop itself (part_000, lines 138--146), from \<open>current\<close> up to the root.\<close>

fun onUpdate_totals :: "OrderNode \<Rightarrow> int \<Rightarrow> OrderNode \<Rightarrow> 'v ItemList \<Rightarrow> 'v ItemList" where
  "onUpdate_totals node delta (OrderNode i par v) s =
     (let s1 = onUpdate_body node delta (OrderNode i par v) s
      in case par of None \<Rightarrow> s1 | Some p \<Rightarrow> onUpdate_totals node delta p s1)"

text \<open>The loop of \<open>onUpdate\<close> over the children of \<open>node\<close> (part_000, lines 152--162).\<close>

definition refreshChild :: "'v NodeData \<Rightarrow> OrderNode \<Rightarrow> 'v ItemList \<Rightarrow> 'v ItemList" where
  "refreshChild nodeData child s =
     (case map_of (state s) child of
        None \<Rightarrow> s
      | Some childData \<Rightarrow>
          s\<lparr>state := AList.update child
                 (childData\<lparr>parentValuesBefore :=
                    int (snd (snd (arrayMan_getInfo (values' nodeData) (nextValueIndex child))))\<rparr>)
                 (state s)\<rparr>)"

text \<open>\<open>onUpdate\<close> (part_000, lines 132--164).\<close>

definition onUpdate :: "Order \<Rightarrow> 'v ItemList \<Rightarrow> OrderNode \<Rightarrow> int \<Rightarrow> 'v ItemList" where
  "onUpdate ord s node delta =
     (let s1 = (if cachedIndexNode s \<noteq> Some node then s\<lparr>cachedIndexNode := None\<rparr> else s);
          s2 = (if delta \<noteq> 0 then onUpdate_totals node delta node s1 else s1)
      in case map_of (state s2) node of
           None \<Rightarrow> s2
         | Some nodeData \<Rightarrow> fold (refreshChild nodeData) (children ord node) s2)"

text \<open>\<open>set\<close> (part_000, lines 54--76): the list after the call and the replaced values.\<close>

definition set_il ::
  "Order \<Rightarrow> 'v ItemList \<Rightarrow> Position \<Rightarrow> 'v list \<Rightarrow> error + ('v ItemList \<times> 'v SparseItems)" where
  "set_il ord s startPos item =
     (case getNodeFor ord startPos of
        Inl e \<Rightarrow> Inl e
      | Inr node \<Rightarrow>
          if length item = 0 then Inr (s, arrayMan_new 0)
          else if node = rootNode ord \<and> int (valueIndex startPos) + int (length item) - 1 > 1
          then Inl InvalidPosition
          else
            (let (s1, data) = getOrCreateData s node;
                 (newArr, existing) = arrayMan_set (values' data) (valueIndex startPos) item;
                 s2 = s1\<lparr>state := AList.update node
                               (data\<lparr>values' := arrayMan_trim newArr\<rparr>) (state s1)\<rparr>
             in Inr (onUpdate ord s2 node (int (length item) - int (arrayMan_size existing)),
                     existing)))"

text \<open>\<open>delete\<close> (part_000, lines 81--106). \<open>count\<close> is a JavaScript number that the
  source does not check, and it is handed to the sparse store as it is. The second
  component of the result is the replaced values. For a negative count on a node with a
  record, what becomes of the values is decided by the store's \<open>delete\<close>, outside its
  contract: the model marks the call \<open>ContractViolation\<close> and says nothing of the list
  after it.\<close>

definition delete_il ::
  "Order \<Rightarrow> 'v ItemList \<Rightarrow> Position \<Rightarrow> int \<Rightarrow> error + ('v ItemList \<times> 'v Replaced)" where
  "delete_il ord s startPos count =
     (case getNodeFor ord startPos of
        Inl e \<Rightarrow> Inl e
      | Inr node \<Rightarrow>
          if count = 0 then Inr (s, Replaced (arrayMan_new 0))
          else if node = rootNode ord \<and> int (valueIndex startPos) + count - 1 > 1
          then Inl InvalidPosition
          else
            (case map_of (state s) node of
               None \<Rightarrow> Inr (s, arrayMan_new_number count)
             | Some data \<Rightarrow>
                 (case arrayMan_delete (values' data) (valueIndex startPos) count of
                    None \<Rightarrow> Inl ContractViolation
                  | Some (newArr, existing) \<Rightarrow>
                      (let s2 = s\<lparr>state := AList.update node
                                        (data\<lparr>values' := arrayMan_trim newArr\<rparr>) (state s)\<rparr>
                       in Inr (onUpdate ord s2 node (0 - int (arrayMan_size existing)),
                               Replaced existing)))))"

text \<open>\<open>clear\<close> (part_000, lines 171--176).\<close>

definition clear :: "'v ItemList \<Rightarrow> 'v ItemList" where
  "clear s = s\<lparr>state := [], cachedIndexNode := None\<rparr>"

text \<open>\<open>total\<close> and the getter \<open>length\<close> (part_000, lines 414--424).\<close>

definition total_of :: "'v ItemList \<Rightarrow> OrderNode \<Rightarrow> int" where
  "total_of s node = (case map_of (state s) node of None \<Rightarrow> 0 | Some data \<Rightarrow> total data)"

definition length_il :: "Order \<Rightarrow> 'v ItemList \<Rightarrow> int" where
  "length_il ord s = total_of s (rootNode ord)"

text \<open>\<open>getInNode\<close>, \<open>get\<close> and \<open>has\<close> (part_000, lines 237--272).\<close>

definition getInNode :: "'v ItemList \<Rightarrow> OrderNode \<Rightarrow> nat \<Rightarrow> 'v option \<times> bool \<times> nat" where
  "getInNode s node vi =
     (case map_of (state s) node of
        None \<Rightarrow> (None, False, 0)
      | Some data \<Rightarrow> arrayMan_getInfo (values' data) vi)"

definition get :: "Order \<Rightarrow> 'v ItemList \<Rightarrow> Position \<Rightarrow> error + 'v option" where
  "get ord s p =
     (case getNodeFor ord p of
        Inl e \<Rightarrow> Inl e
      | Inr node \<Rightarrow> Inr (fst (getInNode s node (valueIndex p))))"

definition has :: "Order \<Rightarrow> 'v ItemList \<Rightarrow> Position \<Rightarrow> error + bool" where
  "has ord s p =
     (case getNodeFor ord p of
        Inl e \<Rightarrow> Inl e
      | Inr node \<Rightarrow> Inr (fst (snd (getInNode s node (valueIndex p)))))"

text \<open>\<open>indexOfPosition\<close> (part_000, lines 293--357). The first loop adds the totals of
  the children anchored at or before the slot (lines 306--310).\<close>

datatype searchDir = DirNone | DirLeft | DirRight

fun childrenBefore :: "'v ItemList \<Rightarrow> OrderNode list \<Rightarrow> nat \<Rightarrow> int \<Rightarrow> int" where
  "childrenBefore s [] vi valuesBefore = valuesBefore"
| "childrenBefore s (child # rest) vi valuesBefore =
     (if \<not> (nextValueIndex child \<le> vi) then valuesBefore
      else childrenBefore s rest vi (valuesBefore + total_of s child))"

text \<open>The loop over the siblings that come before \<open>current\<close> (lines 332--336).\<close>

fun siblingsBefore :: "'v ItemList \<Rightarrow> OrderNode list \<Rightarrow> OrderNode \<Rightarrow> int \<Rightarrow> int" where
  "siblingsBefore s [] current beforeNode = beforeNode"
| "siblingsBefore s (child # rest) current beforeNode =
     (if child = current then beforeNode
      else siblingsBefore s rest current (beforeNode + total_of s child))"

text \<open>The walk up the tree (lines 324--337). At each step the source adds
  \<open>this.state.get(current.parent)?.parentValuesBefore ?? 0\<close>: the field of the record of
  the parent.\<close>

fun beforeNodeWalk :: "Order \<Rightarrow> 'v ItemList \<Rightarrow> OrderNode \<Rightarrow> int \<Rightarrow> int" where
  "beforeNodeWalk ord s (OrderNode i par v) beforeNode =
     (case par of
        None \<Rightarrow> beforeNode
      | Some p \<Rightarrow>
          (let b1 = beforeNode +
                 (case map_of (state s) p of None \<Rightarrow> 0 | Some d \<Rightarrow> parentValuesBefore d);
               b2 = siblingsBefore s (children ord p) (OrderNode i par v) b1
           in beforeNodeWalk ord s p b2))"

definition indexOfPosition ::
  "Order \<Rightarrow> 'v ItemList \<Rightarrow> Position \<Rightarrow> searchDir \<Rightarrow> error + (int \<times> 'v ItemList)" where
  "indexOfPosition ord s p dir =
     (case getNodeFor ord p of
        Inl e \<Rightarrow> Inl e
      | Inr node \<Rightarrow>
          (let (v, isPresent, nodeValuesBefore) = getInNode s node (valueIndex p);
               valuesBefore0 =
                 childrenBefore s (children ord node) (valueIndex p) (int nodeValuesBefore);
               (beforeNode, s1) =
                 (if cachedIndexNode s = Some node then (cachedIndex s, s)
                  else (let b = beforeNodeWalk ord s node 0
                        in (b, s\<lparr>cachedIndexNode := Some node, cachedIndex := b\<rparr>)));
               valuesBefore = valuesBefore0 + beforeNode
           in Inr (if isPresent then valuesBefore
                   else (case dir of
                           DirNone \<Rightarrow> - 1
                         | DirLeft \<Rightarrow> valuesBefore - 1
                         | DirRight \<Rightarrow> valuesBefore),
                   s1)))"

text \<open>\<open>positionAt\<close> (part_000, lines 362--409). The \<open>for\<close> loop over the children of
  \<open>current\<close> either returns, or is left by \<open>break\<close>, or runs to its end; the statement
  after the loop is the \<open>throw\<close> of line 407, which is inside the \<open>while (true)\<close>, so
  both ways of leaving the loop reach it and the body of the \<open>while\<close> runs once, with
  \<open>current\<close> the root.\<close>

fun positionAt_children ::
  "'v ItemList \<Rightarrow> OrderNode \<Rightarrow> 'v NodeData option \<Rightarrow> OrderNode list \<Rightarrow> int \<Rightarrow> nat \<Rightarrow> int
     \<Rightarrow> error + Position" where
  "positionAt_children s current currentData [] remaining nvi prevParentValuesBefore =
     Inl InternalInvariantViolation"
| "positionAt_children s current currentData (child # rest) remaining nvi prevParentValuesBefore =
     (case map_of (state s) child of
        None \<Rightarrow>
          positionAt_children s current currentData rest remaining nvi prevParentValuesBefore
      | Some childData \<Rightarrow>
          (let valuesBetween = parentValuesBefore childData - prevParentValuesBefore
           in if remaining < valuesBetween then
                (case currentData of
                   None \<Rightarrow> Inl TypeError
                 | Some cd \<Rightarrow>
                     (case arrayMan_findPresentIndex (values' cd) nvi (nat remaining) of
                        None \<Rightarrow> Inl ContractViolation
                      | Some k \<Rightarrow> Inr \<lparr>nodeID = node_id current, valueIndex = k\<rparr>))
              else
                (let remaining1 = remaining - valuesBetween
                 in if remaining1 < total childData then Inl InternalInvariantViolation
                    else positionAt_children s current currentData rest
                           (remaining1 - total childData) (nextValueIndex child)
                           (parentValuesBefore childData))))"

definition positionAt :: "Order \<Rightarrow> 'v ItemList \<Rightarrow> int \<Rightarrow> error + Position" where
  "positionAt ord s index =
     (if index < 0 \<or> index \<ge> length_il ord s then Inl IndexOutOfBounds
      else positionAt_children s (rootNode ord) (map_of (state s) (rootNode ord))
             (children ord (rootNode ord)) index 0 0)"

text \<open>\<open>insert\<close> and \<open>insertAt\<close> (part_000, lines 188--227). \<open>createPositions\<close> belongs
  to the position provider and may add a node to it: it is a parameter that returns the
  provider after the call. An error carries the list as the failing call leaves it
  (\<open>indexOfPosition\<close> may have set the cache).\<close>

type_synonym CreatePositions =
  "Order \<Rightarrow> Position \<Rightarrow> Position \<Rightarrow> nat \<Rightarrow> error + ((Position \<times> OrderNode option) \<times> Order)"

definition insertWith ::
  "CreatePositions \<Rightarrow> Order \<Rightarrow> 'v ItemList \<Rightarrow> Position \<Rightarrow> Position \<Rightarrow> 'v list
     \<Rightarrow> (error \<times> 'v ItemList) + ((Position \<times> OrderNode option) \<times> Order \<times> 'v ItemList)" where
  "insertWith createPositions ord s prevPos nextPos item =
     (case createPositions ord prevPos nextPos (length item) of
        Inl e \<Rightarrow> Inl (e, s)
      | Inr (ret, ord1) \<Rightarrow>
          (case set_il ord1 s (fst ret) item of
             Inl e \<Rightarrow> Inl (e, s)
           | Inr (s1, existing) \<Rightarrow> Inr (ret, ord1, s1)))"

definition insert_il ::
  "CreatePositions \<Rightarrow> Order \<Rightarrow> 'v ItemList \<Rightarrow> Position \<Rightarrow> 'v list
     \<Rightarrow> (error \<times> 'v ItemList) + ((Position \<times> OrderNode option) \<times> Order \<times> 'v ItemList)" where
  "insert_il createPositions ord s prevPos item =
     (case indexOfPosition ord s prevPos DirLeft of
        Inl e \<Rightarrow> Inl (e, s)
      | Inr (i, s1) \<Rightarrow>
          (case positionAt ord s1 (i + 1) of
             Inl e \<Rightarrow> Inl (e, s1)
           | Inr nextPos \<Rightarrow> insertWith createPositions ord s1 prevPos nextPos item))"

definition insertAt ::
  "CreatePositions \<Rightarrow> Order \<Rightarrow> 'v ItemList \<Rightarrow> int \<Rightarrow> 'v list
     \<Rightarrow> (error \<times> 'v ItemList) + ((Position \<times> OrderNode option) \<times> Order \<times> 'v ItemList)" where
  "insertAt createPositions ord s index item =
     (case (if index = 0 then Inr (MIN_POSITION ord) else positionAt ord s (index - 1)) of
        Inl e \<Rightarrow> Inl (e, s)
      | Inr prevPos \<Rightarrow>
          (case (if index = length_il ord s then Inr (MAX_POSITION ord)
                 else positionAt ord s index) of
             Inl e \<Rightarrow> Inl (e, s)
           | Inr nextPos \<Rightarrow> insertWith createPositions ord s prevPos nextPos item))"

text \<open>\<open>normalizeSliceRange\<close> (part_000, lines 514--529); \<open>None\<close> is \<open>undefined\<close> for
  an argument and \<open>null\<close> for the result.\<close>

definition normalizeSliceRange ::
  "Order \<Rightarrow> 'v ItemList \<Rightarrow> int option \<Rightarrow> int option \<Rightarrow> (int \<times> int) option" where
  "normalizeSliceRange ord s start end' =
     (let len = length_il ord s;
          start1 =
            (case start of
               None \<Rightarrow> Some 0
             | Some st \<Rightarrow>
                 if st < - len then Some 0
                 else if st < 0 then Some (st + len)
                 else if st \<ge> len then None
                 else Some st)
      in case start1 of
           None \<Rightarrow> None
         | Some st1 \<Rightarrow>
             (let end1 =
                    (case end' of
                       None \<Rightarrow> len
                     | Some e \<Rightarrow>
                         if e \<ge> len then len
                         else if e < - len then 0
                         else if e < 0 then e + len
                         else e)
              in if end1 \<le> st1 then None else Some (st1, end1)))"

text \<open>Modelled from the spec: the bound \<open>Array.slice\<close> makes of an argument \<open>k\<close> for a
  list of length \<open>len\<close>: a negative \<open>k\<close> is interpreted as \<open>len + k\<close>, and the result is
  clamped at 0 and \<open>len\<close>.\<close>

definition sliceBound :: "int \<Rightarrow> int \<Rightarrow> int" where
  "sliceBound len k = (if k < 0 then max (len + k) 0 else min k len)"

text \<open>\<open>entries\<close> (part_000, lines 436--508). A frame of the manual stack holds the
  node, the index of its next child and its slicer (the sequence and the slot it resumes
  from); the top of the stack is the head of the list. The generator is modelled by the
  list of the pairs it yields.\<close>

record 'v Frame =
  frameNode :: OrderNode
  nextChildIndex :: nat
  slicerItems :: "'v SparseItems"
  slicerCursor :: nat

text \<open>The \<open>for\<close> loop over one slice (lines 468--482): the pairs yielded so far, the
  running index, and whether the generator returned.\<close>

fun emitSlice ::
  "OrderNode \<Rightarrow> (nat \<times> 'v) list \<Rightarrow> int \<Rightarrow> int \<Rightarrow> int \<Rightarrow> (Position \<times> 'v) list
     \<Rightarrow> (Position \<times> 'v) list \<times> int \<times> bool" where
  "emitSlice node [] index start end' out = (out, index, False)"
| "emitSlice node ((vi, v) # rest) index start end' out =
     (let out1 = (if index \<ge> start
                  then out @ [(\<lparr>nodeID = node_id node, valueIndex = vi\<rparr>, v)] else out);
          index1 = index + 1
      in if index1 \<ge> end' then (out1, index1, True)
         else emitSlice node rest index1 start end' out1)"

text \<open>One turn of the \<open>while (stack.length !== 0)\<close> loop (lines 457--507): either the
  generator is finished (\<open>Inl\<close>), or the loop goes on with a new stack, index and output.\<close>

definition entries_step ::
  "Order \<Rightarrow> 'v ItemList \<Rightarrow> int \<Rightarrow> int \<Rightarrow> 'v Frame list \<times> int \<times> (Position \<times> 'v) list
     \<Rightarrow> (Position \<times> 'v) list + ('v Frame list \<times> int \<times> (Position \<times> 'v) list)" where
  "entries_step ord s start end' cfg =
     (case cfg of
        ([], index, out) \<Rightarrow> Inl out
      | (topFrame # below, index, out) \<Rightarrow>
          (let node = frameNode topFrame;
               kids = children ord node;
               endValueIndex =
                 (if nextChildIndex topFrame = length kids then None
                  else Some (nextValueIndex (kids ! nextChildIndex topFrame)));
               (slice, cursor1) = nextSlice (slicerItems topFrame) (slicerCursor topFrame) endValueIndex;
               (out1, index1, finished) = emitSlice node slice index start end' out;
               top1 = topFrame\<lparr>slicerCursor := cursor1\<rparr>
           in if finished then Inl out1
              else if nextChildIndex topFrame = length kids then Inr (below, index1, out1)
              else
                (let child = kids ! nextChildIndex topFrame;
                     top2 = top1\<lparr>nextChildIndex := nextChildIndex topFrame + 1\<rparr>
                 in case map_of (state s) child of
                      None \<Rightarrow> Inr (top2 # below, index1, out1)
                    | Some childData \<Rightarrow>
                        if index1 + total childData \<le> start
                        then Inr (top2 # below, index1 + total childData, out1)
                        else Inr (\<lparr>frameNode = child, nextChildIndex = 0,
                                    slicerItems = values' childData, slicerCursor = 0\<rparr>
                                  # top2 # below, index1, out1))))"

partial_function (option) entries_loop ::
  "Order \<Rightarrow> 'v ItemList \<Rightarrow> int \<Rightarrow> int \<Rightarrow> 'v Frame list \<times> int \<times> (Position \<times> 'v) list
     \<Rightarrow> (Position \<times> 'v) list option" where
  "entries_loop ord s start end' cfg =
     (case entries_step ord s start end' cfg of
        Inl out \<Rightarrow> Some out
      | Inr cfg1 \<Rightarrow> entries_loop ord s start end' cfg1)"

declare entries_loop.simps [code]

text \<open>\<open>entries\<close>: \<open>None\<close> when the loop does not end, \<open>Some (Inl TypeError)\<close> for the
  read of \<open>rootData.values\<close> on a missing record.\<close>

definition entries ::
  "Order \<Rightarrow> 'v ItemList \<Rightarrow> int option \<Rightarrow> int option \<Rightarrow> (error + (Position \<times> 'v) list) option" where
  "entries ord s start end' =
     (case normalizeSliceRange ord s start end' of
        None \<Rightarrow> Some (Inr [])
      | Some (start1, end1) \<Rightarrow>
          (case map_of (state s) (rootNode ord) of
             None \<Rightarrow> Some (Inl TypeError)
           | Some rootData \<Rightarrow>
               map_option Inr
                 (entries_loop ord s start1 end1
                    ([\<lparr>frameNode = rootNode ord, nextChildIndex = 0,
                       slicerItems = values' rootData, slicerCursor = 0\<rparr>], 0, []))))"

text \<open>\<open>save\<close> (part_000, lines 546--554). The saved object is a list of its entries in
  the order \<open>Object.entries\<close> gives them, which for keys that are not array indices is
  the order of their first assignment.\<close>

definition save :: "('v SparseItems \<Rightarrow> 'a) \<Rightarrow> 'v ItemList \<Rightarrow> (string \<times> 'a) list" where
  "save saveArray s =
     fold (\<lambda>(node, data) savedState.
             if \<not> arrayMan_isEmpty (values' data)
             then AList.update (node_id node) (saveArray (values' data)) savedState
             else savedState)
          (state s) []"

text \<open>\<open>load\<close> (part_000, lines 568--589): \<open>load_entry\<close> is the body of its loop for
  a node the provider knows (lines 583--587), \<open>load_entries\<close> the loop. An error carries
  the list as the failing call leaves it.\<close>

definition load_entry ::
  "Order \<Rightarrow> 'v ItemList \<Rightarrow> OrderNode \<Rightarrow> 'v SparseItems \<Rightarrow> 'v ItemList" where
  "load_entry ord s node vs =
     (let (s1, data) = getOrCreateData s node;
          existingCount = arrayMan_size (values' data);
          s2 = s1\<lparr>state := AList.update node (data\<lparr>values' := vs\<rparr>) (state s1)\<rparr>
      in onUpdate ord s2 node (int (arrayMan_size vs) - int existingCount))"

fun load_entries ::
  "Order \<Rightarrow> ('a \<Rightarrow> 'v SparseItems) \<Rightarrow> (string \<times> 'a) list \<Rightarrow> 'v ItemList
     \<Rightarrow> (error \<times> 'v ItemList) + 'v ItemList" where
  "load_entries ord loadArray [] s = Inr s"
| "load_entries ord loadArray ((i, savedArr) # rest) s =
     (case getNode ord i of
        None \<Rightarrow> Inl (MissingNode, s)
      | Some node \<Rightarrow> load_entries ord loadArray rest (load_entry ord s node (loadArray savedArr)))"

definition load ::
  "Order \<Rightarrow> 'v ItemList \<Rightarrow> (string \<times> 'a) list \<Rightarrow> ('a \<Rightarrow> 'v SparseItems)
     \<Rightarrow> (error \<times> 'v ItemList) + 'v ItemList" where
  "load ord s savedState loadArray = load_entries ord loadArray savedState (clear s)"

section \<open>The older list facade\<close>

text \<open>\<open>List.delete\<close> (list.ts, lines 146--170), which keeps its own map of the same
  records and validates \<open>count\<close> before it touches it. The count is an integer here, so
  \<open>Number.isInteger(count)\<close> holds.\<close>

definition List_delete ::
  "Order \<Rightarrow> 'v ItemList \<Rightarrow> Position \<Rightarrow> int \<Rightarrow> error + 'v ItemList" where
  "List_delete ord s startPos count =
     (case getNodeFor ord startPos of
        Inl e \<Rightarrow> Inl e
      | Inr node \<Rightarrow>
          if count = 0 then Inr s
          else if count < 0 then Inl InvalidCount
          else if node = rootNode ord \<and> int (valueIndex startPos) + count - 1 > 1
          then Inl InvalidPosition
          else
            (case map_of (state s) node of
               None \<Rightarrow> Inr s
             | Some data \<Rightarrow>
                 (case arrayMan_delete (values' data) (valueIndex startPos) count of
                    None \<Rightarrow> Inl ContractViolation
                  | Some (newArr, existing) \<Rightarrow>
                      (let s2 = s\<lparr>state := AList.update node
                                        (data\<lparr>values' := arrayMan_trim newArr\<rparr>) (state s)\<rparr>
                       in Inr (onUpdate ord s2 node (- int (arrayMan_size existing)))))))"

section \<open>Well-formed trees and reachable lists\<close>

text \<open>The depth of a node is the number of its proper ancestors, and \<open>topOf\<close> the node at
  the end of its parent chain.\<close>

fun depth :: "OrderNode \<Rightarrow> nat" where
  "depth (OrderNode i par v) = (case par of None \<Rightarrow> 0 | Some p \<Rightarrow> Suc (depth p))"

fun topOf :: "OrderNode \<Rightarrow> OrderNode" where
  "topOf (OrderNode i par v) = (case par of None \<Rightarrow> OrderNode i par v | Some p \<Rightarrow> topOf p)"


text \<open>The lists reachable over a position tree: the new list, and the lists that \<open>set\<close>,
  \<open>delete\<close>, \<open>indexOfPosition\<close>, \<open>clear\<close> and one turn of the loop of \<open>load\<close> leave
  (for any node and any loaded values, so the lists a failed \<open>load\<close> leaves are among
  them). A \<open>delete\<close> counts when the model gives its result, that is, unless its count is
  negative on a node with a record.\<close>

inductive reachable :: "Order \<Rightarrow> 'v ItemList \<Rightarrow> bool" for ord :: Order where
  r_new: "reachable ord new_ItemList"
| r_set: "reachable ord s \<Longrightarrow> set_il ord s p item = Inr (s', x) \<Longrightarrow> reachable ord s'"
| r_delete: "reachable ord s \<Longrightarrow> delete_il ord s p count = Inr (s', y) \<Longrightarrow> reachable ord s'"
| r_index: "reachable ord s \<Longrightarrow> indexOfPosition ord s p dir = Inr (i, s') \<Longrightarrow> reachable ord s'"
| r_clear: "reachable ord s \<Longrightarrow> reachable ord (clear s)"
| r_load: "reachable ord s \<Longrightarrow> reachable ord (load_entry ord s node vs)"



section \<open>A concrete position tree\<close>

text \<open>The root, a child \<open>c\<close> anchored at slot 1 of the root, and a child \<open>g\<close> of \<open>c\<close>
  anchored at slot 0 of \<open>c\<close>.\<close>

definition ex_root :: OrderNode where
  "ex_root = OrderNode ''ROOT'' None 0"

definition ex_c :: OrderNode where
  "ex_c = OrderNode ''c'' (Some ex_root) 1"

definition ex_g :: OrderNode where
  "ex_g = OrderNode ''g'' (Some ex_c) 0"

definition ex_getNode :: "string \<Rightarrow> OrderNode option" where
  "ex_getNode i =
     (if i = ''ROOT'' then Some ex_root
      else if i = ''c'' then Some ex_c
      else if i = ''g'' then Some ex_g else None)"

definition ex_order :: Order where
  "ex_order =
     \<lparr>rootNode = ex_root,
      MIN_POSITION = \<lparr>nodeID = ''ROOT'', valueIndex = 0\<rparr>,
      MAX_POSITION = \<lparr>nodeID = ''ROOT'', valueIndex = 1\<rparr>,
      getNode = ex_getNode,
      getNodeFor = (\<lambda>p. case ex_getNode (nodeID p) of None \<Rightarrow> Inl MissingNode | Some n \<Rightarrow> Inr n),
      children = (\<lambda>n. if n = ex_root then [ex_c] else if n = ex_c then [ex_g] else [])\<rparr>"

definition pos :: "string \<Rightarrow> nat \<Rightarrow> Position" where
  "pos i k = \<lparr>nodeID = i, valueIndex = k\<rparr>"

text \<open>States of a list of numbers over this tree, named after the calls that lead to
  them (each is the result of the call, as the lemmas below show).\<close>

definition ex_written_c :: "nat ItemList" where
  "ex_written_c =
     \<lparr>state = [(ex_c, \<lparr>total = 0, parentValuesBefore = 0, values' = [Some 7]\<rparr>)],
      cachedIndexNode = None, cachedIndex = - 1\<rparr>"

definition ex_set_c :: "nat ItemList" where
  "ex_set_c =
     \<lparr>state = [(ex_c, \<lparr>total = 2, parentValuesBefore = 0, values' = [Some 7]\<rparr>)],
      cachedIndexNode = None, cachedIndex = - 1\<rparr>"

definition ex_root12 :: "nat ItemList" where
  "ex_root12 =
     \<lparr>state = [(ex_root, \<lparr>total = 2, parentValuesBefore = 0, values' = [Some 1, Some 2]\<rparr>)],
      cachedIndexNode = None, cachedIndex = - 1\<rparr>"

definition ex_root12_c7 :: "nat ItemList" where
  "ex_root12_c7 =
     \<lparr>state = [(ex_root, \<lparr>total = 2, parentValuesBefore = 0, values' = [Some 1, Some 2]\<rparr>),
               (ex_c, \<lparr>total = 2, parentValuesBefore = 1, values' = [Some 7]\<rparr>)],
      cachedIndexNode = None, cachedIndex = - 1\<rparr>"

definition ex_lost :: "nat ItemList" where
  "ex_lost =
     \<lparr>state = [(ex_c, \<lparr>total = 0, parentValuesBefore = 1, values' = []\<rparr>)],
      cachedIndexNode = None, cachedIndex = - 1\<rparr>"

definition ex_root5 :: "nat ItemList" where
  "ex_root5 =
     \<lparr>state = [(ex_root, \<lparr>total = 1, parentValuesBefore = 0, values' = [Some 5]\<rparr>)],
      cachedIndexNode = None, cachedIndex = - 1\<rparr>"

definition ex_root5_cached :: "nat ItemList" where
  "ex_root5_cached = ex_root5\<lparr>cachedIndexNode := Some ex_root, cachedIndex := 0\<rparr>"


definition ex_root12_g7 :: "nat ItemList" where
  "ex_root12_g7 =
     \<lparr>state = [(ex_root, \<lparr>total = 2, parentValuesBefore = 0, values' = [Some 1, Some 2]\<rparr>),
               (ex_g, \<lparr>total = 3, parentValuesBefore = 0, values' = [Some 7]\<rparr>)],
      cachedIndexNode = None, cachedIndex = - 1\<rparr>"

definition ex_root12_c7_g8 :: "nat ItemList" where
  "ex_root12_c7_g8 =
     \<lparr>state = [(ex_root, \<lparr>total = 2, parentValuesBefore = 0, values' = [Some 1, Some 2]\<rparr>),
               (ex_c, \<lparr>total = 2, parentValuesBefore = 1, values' = [Some 7]\<rparr>),
               (ex_g, \<lparr>total = 3, parentValuesBefore = 0, values' = [Some 8]\<rparr>)],
      cachedIndexNode = None, cachedIndex = - 1\<rparr>"

definition ex_c7_g8 :: "nat ItemList" where
  "ex_c7_g8 =
     \<lparr>state = [(ex_c, \<lparr>total = 2, parentValuesBefore = 1, values' = [Some 7]\<rparr>),
               (ex_g, \<lparr>total = 3, parentValuesBefore = 0, values' = [Some 8]\<rparr>)],
      cachedIndexNode = None, cachedIndex = - 1\<rparr>"

definition ex_c7_g8_loaded :: "nat ItemList" where
  "ex_c7_g8_loaded =
     \<lparr>state = [(ex_c, \<lparr>total = 2, parentValuesBefore = 0, values' = [Some 7]\<rparr>),
               (ex_g, \<lparr>total = 3, parentValuesBefore = 0, values' = [Some 8]\<rparr>)],
      cachedIndexNode = None, cachedIndex = - 1\<rparr>"

section \<open>What the helpers preserve\<close>

lemma dom_getOrCreateData:
  "dom (map_of (state (fst (getOrCreateData s node)))) = insert node (dom (map_of (state s)))"
  by (auto simp: getOrCreateData_def Let_def update_conv' split: option.splits)


lemma dom_onUpdate_body:
  "dom (map_of (state (onUpdate_body node delta current s)))
     \<subseteq> insert node (dom (map_of (state s)))"
proof -
  obtain s1 data where g: "getOrCreateData s node = (s1, data)"
    by (cases "getOrCreateData s node")
  have "dom (map_of (state s1)) = insert node (dom (map_of (state s)))"
    using dom_getOrCreateData[of s node] g by simp
  then show ?thesis
    using g by (auto simp: onUpdate_body_def Let_def update_conv' delete_conv' split: if_splits)
qed


lemma dom_onUpdate_totals:
  "dom (map_of (state (onUpdate_totals node delta current s)))
     \<subseteq> insert node (dom (map_of (state s)))"
proof (induction node delta current s rule: onUpdate_totals.induct)
  case (1 node delta i par v s)
  show ?case
  proof (cases par)
    case None
    then show ?thesis
      using dom_onUpdate_body[of node delta "OrderNode i None v" s] by simp
  next
    case (Some p)
    have "dom (map_of (state (onUpdate_totals node delta p
                 (onUpdate_body node delta (OrderNode i par v) s))))
          \<subseteq> insert node (dom (map_of (state (onUpdate_body node delta (OrderNode i par v) s))))"
      using "1.IH"[OF refl Some] .
    then show ?thesis
      using dom_onUpdate_body[of node delta "OrderNode i par v" s] Some by auto
  qed
qed


lemma refreshChild_dom:
  "dom (map_of (state (refreshChild nd child s))) = dom (map_of (state s))"
  by (auto simp: refreshChild_def update_conv' split: option.splits)


lemma fold_refreshChild_dom:
  "dom (map_of (state (fold (refreshChild nd) kids s))) = dom (map_of (state s))"
  by (induction kids arbitrary: s) (simp_all add: refreshChild_dom)


text \<open>\<open>onUpdate\<close> never creates a record for a node other than \<open>node\<close>: no ancestor
  without a record gets one.\<close>

lemma onUpdate_dom:
  "dom (map_of (state (onUpdate ord s node delta))) \<subseteq> insert node (dom (map_of (state s)))"
proof -
  define s1 where
    "s1 = (if cachedIndexNode s \<noteq> Some node then s\<lparr>cachedIndexNode := None\<rparr> else s)"
  define s2 where "s2 = (if delta \<noteq> 0 then onUpdate_totals node delta node s1 else s1)"
  have b: "state s1 = state s"
    by (simp add: s1_def)
  have "dom (map_of (state s2)) \<subseteq> insert node (dom (map_of (state s1)))"
    unfolding s2_def using dom_onUpdate_totals[of node delta node s1] by (cases "delta = 0") auto
  then have a: "dom (map_of (state s2)) \<subseteq> insert node (dom (map_of (state s)))"
    using b by simp
  have "onUpdate ord s node delta =
          (case map_of (state s2) node of None \<Rightarrow> s2
           | Some nodeData \<Rightarrow> fold (refreshChild nodeData) (children ord node) s2)"
    unfolding onUpdate_def s1_def s2_def Let_def by (rule refl)
  then show ?thesis
    using a by (simp add: fold_refreshChild_dom split: option.splits)
qed


lemma arrayMan_getInfo_new:
  "arrayMan_getInfo (arrayMan_new n :: 'v SparseItems) i = (None, False, 0)"
  by (simp add: arrayMan_getInfo_def arrayMan_new_def arrayMan_size_def Let_def)



text \<open>\<open>positionAt\<close> never answers a position outside the root, and answers none when
  the root has no children.\<close>

lemma positionAt_children_stays_in_current:
  "positionAt_children s current currentData kids remaining nvi prev = Inr p
     \<Longrightarrow> nodeID p = node_id current"
proof (induction kids arbitrary: remaining nvi prev)
  case Nil
  then show ?case by simp
next
  case (Cons child rest)
  then show ?case
    by (auto simp: Let_def split: option.splits if_splits)
qed

lemma positionAt_only_root_positions:
  "positionAt ord s index = Inr p \<Longrightarrow> nodeID p = node_id (rootNode ord)"
  by (auto simp: positionAt_def split: if_splits dest: positionAt_children_stays_in_current)

lemma positionAt_without_children:
  "children ord (rootNode ord) = [] \<Longrightarrow> \<exists>e. positionAt ord s index = Inl e"
  by (simp add: positionAt_def)

text \<open>The count of \<open>delete\<close>: the older facade rejects a negative one, the item list
  never answers \<open>InvalidCount\<close>.\<close>

lemma List_delete_negative_count:
  "getNodeFor ord p = Inr node \<Longrightarrow> count < 0 \<Longrightarrow> List_delete ord s p count = Inl InvalidCount"
  by (simp add: List_delete_def)

lemma delete_il_negative_count_no_record:
  "getNodeFor ord p = Inr node \<Longrightarrow> count < 0 \<Longrightarrow> map_of (state s) node = None
     \<Longrightarrow> node \<noteq> rootNode ord \<Longrightarrow> delete_il ord s p count = Inr (s, AbsentRun count)"
  by (simp add: delete_il_def arrayMan_new_number_def)

lemma delete_il_never_InvalidCount:
  "getNodeFor ord p = Inr node \<Longrightarrow> delete_il ord s p count \<noteq> Inl InvalidCount"
  by (simp add: delete_il_def Let_def split: option.splits prod.splits)

text \<open>\<open>normalizeSliceRange\<close> computes the bounds of \<open>Array.slice\<close>, and an empty range
  yields nothing.\<close>

lemma normalizeSliceRange_slice:
  assumes "0 \<le> length_il ord s"
  shows "normalizeSliceRange ord s (Some a) (Some b) =
           (if sliceBound (length_il ord s) b \<le> sliceBound (length_il ord s) a then None
            else Some (sliceBound (length_il ord s) a, sliceBound (length_il ord s) b))"
  using assms by (auto simp: normalizeSliceRange_def sliceBound_def Let_def)

lemma entries_empty_range:
  "normalizeSliceRange ord s start end' = None \<Longrightarrow> entries ord s start end' = Some (Inr [])"
  by (simp add: entries_def)

section \<open>The cached index is never stale\<close>


lemma depth_top: "parent n = None \<Longrightarrow> depth n = 0"
  by (cases n) simp


lemma topOf_parent: "parent n = Some p \<Longrightarrow> topOf n = topOf p"
  by (cases n) simp

lemma topOf_self: "parent n = None \<Longrightarrow> topOf n = n"
  by (cases n) simp

































lemma load_entries_reachable:
  "reachable ord s \<Longrightarrow>
     (load_entries ord loadArray saved s = Inr s' \<longrightarrow> reachable ord s') \<and>
     (load_entries ord loadArray saved s = Inl (e, s') \<longrightarrow> reachable ord s')"
proof (induction saved arbitrary: s)
  case Nil
  then show ?case by auto
next
  case (Cons a saved)
  obtain i savedArr where a: "a = (i, savedArr)" by (cases a)
  show ?case
  proof (cases "getNode ord i")
    case None
    then show ?thesis using Cons.prems a by auto
  next
    case (Some node)
    have "reachable ord (load_entry ord s node (loadArray savedArr))"
      using Cons.prems by (rule r_load)
    then show ?thesis
      using Cons.IH[of "load_entry ord s node (loadArray savedArr)"] Some a by simp
  qed
qed

lemma load_reachable:
  "reachable ord s \<Longrightarrow> load ord s saved loadArray = Inr s' \<or> load ord s saved loadArray = Inl (e, s')
     \<Longrightarrow> reachable ord s'"
  using load_entries_reachable[of ord "clear s" loadArray saved s' e] r_clear[of ord s]
  by (auto simp: load_def)

text \<open>\<open>insert\<close> and \<open>insertAt\<close> are \<open>indexOfPosition\<close>, the provider's call and \<open>set\<close>: a
  failed call, and a call for which the provider keeps its tree, leave a reachable list.\<close>

lemma insertWith_reachable:
  assumes "reachable ord s"
  shows "(insertWith createPositions ord s prevPos nextPos item = Inl (e, s') \<longrightarrow> reachable ord s') \<and>
         (insertWith createPositions ord s prevPos nextPos item = Inr (ret, ord, s') \<longrightarrow>
            reachable ord s')"
  using assms
  by (auto simp: insertWith_def split: sum.splits prod.splits intro: r_set)

lemma insert_il_reachable:
  assumes "reachable ord s"
  shows "(insert_il createPositions ord s prevPos item = Inl (e, s') \<longrightarrow> reachable ord s') \<and>
         (insert_il createPositions ord s prevPos item = Inr (ret, ord, s') \<longrightarrow> reachable ord s')"
proof (cases "indexOfPosition ord s prevPos DirLeft")
  case (Inl e1)
  then show ?thesis using assms by (auto simp: insert_il_def)
next
  case (Inr r)
  obtain i s1 where r: "r = (i, s1)" by (cases r)
  have s1: "reachable ord s1"
    using assms Inr r by (auto intro: r_index)
  show ?thesis
    using Inr r s1 insertWith_reachable[OF s1, of createPositions prevPos _ item e s' ret]
    by (auto simp: insert_il_def split: sum.splits)
qed

lemma insertAt_reachable:
  assumes "reachable ord s"
  shows "(insertAt createPositions ord s index item = Inl (e, s') \<longrightarrow> reachable ord s') \<and>
         (insertAt createPositions ord s index item = Inr (ret, ord, s') \<longrightarrow> reachable ord s')"
  using assms insertWith_reachable[OF assms, of createPositions _ _ item e s' ret]
  by (auto simp: insertAt_def split: sum.splits if_splits)


section \<open>The claims\<close>

text \<open>
  C1. After a mutator changes the number of present values of a node by a non-zero delta,
  the maintenance step should walk from the node to the root, create the record of each
  node on the path when it is missing, and add the delta to its total. On the tree above,
  with the value 7 just written at slot 0 of \<open>c\<close>, \<open>onUpdate\<close> adds the delta to the record
  of \<open>c\<close> twice (once for \<open>c\<close>, once for the root) and leaves the root without a record,
  so the length of the list stays 0.
\<close>

theorem onUpdate_counts_node_for_each_ancestor:
  "onUpdate ex_order ex_written_c ex_c 1 = ex_set_c \<and>
   total_of ex_set_c ex_c = 2 \<and>
   map_of (state ex_set_c) ex_root = None \<and>
   length_il ex_order ex_set_c = 0"
  by code_simp

text \<open>
  C2. After every operation every record should have a positive total that is the number
  of its own present values plus the totals of its children, and a node should have a
  record exactly when that total is positive. Writing two values at the root and one at
  \<open>c\<close> gives \<open>c\<close> the total 2 for one value and leaves the total of the root at 2 for
  three values below it; deleting the value of \<open>c\<close> then removes the record of the root,
  which still holds two values, and keeps a record of \<open>c\<close> with total 0.
\<close>

theorem totals_invariant_broken_by_set_and_delete:
  "set_il ex_order new_ItemList (pos ''ROOT'' 0) [1, 2] = Inr (ex_root12, [None, None]) \<and>
   set_il ex_order ex_root12 (pos ''c'' 0) [7] = Inr (ex_root12_c7, [None]) \<and>
   delete_il ex_order ex_root12_c7 (pos ''c'' 0) 1 = Inr (ex_lost, Replaced [Some 7]) \<and>
   map_of (state ex_lost) ex_root = None \<and>
   total_of ex_lost ex_c = 0"
  by code_simp

text \<open>
  C3. \<open>positionAt\<close> and \<open>indexOfPosition\<close> should be mutually inverse on the present
  positions and on the indices below the length. With the single value 5 at slot 0 of
  the root, that position is present and has index 0, the length is 1, and
  \<open>positionAt(0)\<close> raises the internal error: the root has no child with a record, the
  loop over the children ends, and the \<open>throw\<close> after it is reached.
\<close>

theorem positionAt_fails_on_present_index:
  "set_il ex_order new_ItemList (pos ''ROOT'' 0) [5] = Inr (ex_root5, [None]) \<and>
   has ex_order ex_root5 (pos ''ROOT'' 0) = Inr True \<and>
   length_il ex_order ex_root5 = 1 \<and>
   indexOfPosition ex_order ex_root5 (pos ''ROOT'' 0) DirNone = Inr (0, ex_root5_cached) \<and>
   positionAt ex_order ex_root5_cached 0 = Inl InternalInvariantViolation"
  by code_simp

text \<open>
  C4. \<open>insert(prevPos, item)\<close> should fail only for the maximum sentinel and for an empty
  item. On the empty list, inserting one value after the minimum sentinel fails with the
  bounds error of \<open>positionAt\<close>, whatever the position provider's \<open>createPositions\<close>
  is: it is never called.
\<close>

theorem insert_fails_at_end_of_list:
  "insert_il createPositions ex_order (new_ItemList :: nat ItemList) (MIN_POSITION ex_order) [7] =
     Inl (IndexOutOfBounds, new_ItemList\<lparr>cachedIndexNode := Some ex_root, cachedIndex := 0\<rparr>)"
  by (simp add: insert_il_def indexOfPosition_def ex_order_def ex_getNode_def getInNode_def
      new_ItemList_def ex_root_def positionAt_def length_il_def total_of_def ex_c_def)

text \<open>
  C5. \<open>delete\<close> with a negative count should fail with \<open>InvalidCount\<close>. On the empty list
  \<open>delete((c, 0), -1)\<close> of the item list returns normally, with the list unchanged and
  the run of \<open>-1\<close> absent slots that \<open>new(-1)\<close> is; the older \<open>List.delete\<close> rejects the
  same call.
\<close>

theorem delete_accepts_negative_count:
  "delete_il ex_order (new_ItemList :: nat ItemList) (pos ''c'' 0) (- 1) =
     Inr (new_ItemList, AbsentRun (- 1)) \<and>
   List_delete ex_order (new_ItemList :: nat ItemList) (pos ''c'' 0) (- 1) = Inl InvalidCount"
  by code_simp




text \<open>
  C7. For a present position every search direction should return its index. With the
  values 1 and 2 at slots 0 and 1 of the root and 7 at slot 0 of \<open>c\<close>, which is anchored
  at slot 1 of the root, the list order is root 0, \<open>c\<close> 0, root 1. \<open>indexOfPosition\<close>
  answers 0 for root 0 and 0 again for \<open>c\<close> 0 (the walk up reads the field of the record
  of the root), and 3 for root 1, which is past the length 2.
\<close>

theorem indexOfPosition_same_index_for_two_positions:
  "set_il ex_order ex_root12 (pos ''c'' 0) [7] = Inr (ex_root12_c7, [None]) \<and>
   has ex_order ex_root12_c7 (pos ''ROOT'' 0) = Inr True \<and>
   has ex_order ex_root12_c7 (pos ''c'' 0) = Inr True \<and>
   map_sum id fst (indexOfPosition ex_order ex_root12_c7 (pos ''ROOT'' 0) DirNone) = Inr 0 \<and>
   map_sum id fst (indexOfPosition ex_order ex_root12_c7 (pos ''c'' 0) DirNone) = Inr 0 \<and>
   map_sum id fst (indexOfPosition ex_order ex_root12_c7 (pos ''ROOT'' 1) DirNone) = Inr 3 \<and>
   length_il ex_order ex_root12_c7 = 2"
  by code_simp

text \<open>
  C8. \<open>load(save(s))\<close> should reproduce \<open>s\<close>. After the values 1, 2 at the root, 7 at
  \<open>c\<close> and 8 at \<open>g\<close>, deleting the two values of the root removes its record and leaves
  the record of \<open>c\<close> with \<open>parentValuesBefore = 1\<close>. Saving and loading into a new list
  gives \<open>c\<close> the value 0 there, and \<open>indexOfPosition((g, 0))\<close> is 1 before and 0 after.
\<close>

theorem load_save_differs:
  "set_il ex_order ex_root12_c7 (pos ''g'' 0) [8] = Inr (ex_root12_c7_g8, [None]) \<and>
   delete_il ex_order ex_root12_c7_g8 (pos ''ROOT'' 0) 2 =
     Inr (ex_c7_g8, Replaced [Some 1, Some 2]) \<and>
   save id ex_c7_g8 = [(''c'', [Some 7]), (''g'', [Some 8])] \<and>
   load ex_order new_ItemList (save id ex_c7_g8) id = Inr ex_c7_g8_loaded \<and>
   state ex_c7_g8_loaded \<noteq> state ex_c7_g8 \<and>
   map_sum id fst (indexOfPosition ex_order ex_c7_g8 (pos ''g'' 0) DirNone) = Inr 1 \<and>
   map_sum id fst (indexOfPosition ex_order ex_c7_g8_loaded (pos ''g'' 0) DirNone) = Inr 0"
  by code_simp

text \<open>
  C9. \<open>entries(start, end)\<close> should yield exactly the pairs whose list index lies in the
  normalised range. With 1 and 2 at the root and 7 at \<open>g\<close> (below \<open>c\<close>, which has no
  record), the position \<open>(g, 0)\<close> is present and lies between the two values of the
  root, so the pairs of index 0 and 1 are those of root 0 and \<open>g\<close> 0. \<open>entries()\<close> yields
  root 0 and root 1: the child \<open>c\<close> has no record and is not entered.
\<close>

theorem entries_skips_present_position:
  "set_il ex_order ex_root12 (pos ''g'' 0) [7] = Inr (ex_root12_g7, [None]) \<and>
   has ex_order ex_root12_g7 (pos ''g'' 0) = Inr True \<and>
   get ex_order ex_root12_g7 (pos ''g'' 0) = Inr (Some 7) \<and>
   length_il ex_order ex_root12_g7 = 2 \<and>
   entries ex_order ex_root12_g7 None None =
     Some (Inr [(pos ''ROOT'' 0, 1), (pos ''ROOT'' 1, 2)])"
  by code_simp

text \<open>
  C10. For a position whose node the provider resolves and that has no record in the
  state map, \<open>get\<close> returns \<open>undefined\<close> and \<open>has\<close> returns \<open>false\<close>, without an error,
  at every slot index: the answer of \<open>getInNode\<close> is \<open>[undefined, false, 0]\<close>, which
  is what the sparse store answers for an all-absent sequence of any length
  (\<open>arrayMan_getInfo_new\<close>).
\<close>

theorem get_has_without_record:
  assumes "getNodeFor ord p = Inr node" and "map_of (state s) node = None"
  shows "get ord s p = Inr None \<and> has ord s p = Inr False \<and>
         getInNode s node (valueIndex p) = (None, False, 0)"
  using assms by (simp add: get_def has_def getInNode_def)

theorem get_has_without_record_witness:
  "getNodeFor ex_order (pos ''c'' 3) = Inr ex_c \<and>
   map_of (state ex_root5) ex_c = None \<and>
   get ex_order ex_root5 (pos ''c'' 3) = Inr None \<and>
   has ex_order ex_root5 (pos ''c'' 3) = Inr False"
proof -
  have g: "getNodeFor ex_order (pos ''c'' 3) = Inr ex_c"
    by code_simp
  have m: "map_of (state ex_root5) ex_c = None"
    by code_simp
  from get_has_without_record[OF g m] g m show ?thesis
    by simp
qed

end
